theory Spec2Isabelle
  imports Complex_Main
begin

text \<open>
  A model of the lead-generation server with accounts: the account store with its lazy
  monthly reset, the quota test, and the handler of \<open>/search\<close> with its geocode, text-search
  and detail calls, together with the handlers of \<open>/auth/me\<close> and \<open>/auth/login\<close> that read
  the same accounts. The earlier server without accounts has the same search pipeline
  and nothing else; it is not modelled apart.
\<close>

section \<open>JavaScript values used by the handlers\<close>

text \<open>
  The numbers that the handlers compute with are integers, \<open>Infinity\<close> (the limit of the
  unbounded plans) and \<open>NaN\<close> (what \<open>parseInt\<close> gives for a text without digits, and what
  arithmetic on \<open>undefined\<close> gives). Integers are unbounded here: the usage column is a
  database INTEGER and every other number is at most 25 or a plan limit, so the model
  leaves out the rounding of doubles above \<open>2^53\<close> and the overflow error of the database.
\<close>

datatype jsnum = Num int | Infinity | NaN

text \<open>A value read from an object or written to a response: a number, \<open>null\<close> or \<open>undefined\<close>.\<close>

datatype jsval = Number jsnum | Null | Undefined

text \<open>\<open>ToNumber\<close> on such a value.\<close>

fun to_number :: "jsval \<Rightarrow> jsnum" where
  "to_number (Number x) = x"
| "to_number Null = Num 0"
| "to_number Undefined = NaN"

text \<open>\<open>a + b\<close> with an integer on the left.\<close>

fun js_add :: "int \<Rightarrow> jsnum \<Rightarrow> jsnum" where
  "js_add a (Num b) = Num (a + b)"
| "js_add a Infinity = Infinity"
| "js_add a NaN = NaN"

text \<open>\<open>a - b\<close> with an integer on the right.\<close>

fun js_sub :: "jsnum \<Rightarrow> int \<Rightarrow> jsnum" where
  "js_sub (Num a) b = Num (a - b)"
| "js_sub Infinity b = Infinity"
| "js_sub NaN b = NaN"

text \<open>\<open>a > b\<close>: every comparison with \<open>NaN\<close> is false.\<close>

fun js_gt :: "jsnum \<Rightarrow> jsnum \<Rightarrow> bool" where
  "js_gt (Num a) (Num b) = (a > b)"
| "js_gt Infinity (Num b) = True"
| "js_gt (Num a) Infinity = False"
| "js_gt Infinity Infinity = False"
| "js_gt NaN b = False"
| "js_gt a NaN = False"

text \<open>\<open>Math.min(x, 25)\<close>: \<open>NaN\<close> if an argument is \<open>NaN\<close>.\<close>

fun math_min :: "jsnum \<Rightarrow> int \<Rightarrow> jsnum" where
  "math_min (Num a) b = Num (min a b)"
| "math_min Infinity b = Num b"
| "math_min NaN b = NaN"

text \<open>
  \<open>xs.slice(0, end)\<close>: \<open>end\<close> is turned into an integer (\<open>NaN\<close> becomes 0); a negative
  \<open>end\<close> counts from the end of the array.
\<close>

fun slice0 :: "'a list \<Rightarrow> jsnum \<Rightarrow> 'a list" where
  "slice0 xs NaN = []"
| "slice0 xs Infinity = xs"
| "slice0 xs (Num e) =
     (if e < 0 then take (nat (max (int (length xs) + e) 0)) xs
      else take (nat (min e (int (length xs)))) xs)"

text \<open>\<open>s || null\<close> and \<open>s || t\<close> on texts that may be missing: the empty text is falsy.\<close>

fun truthy :: "string option \<Rightarrow> string option" where
  "truthy None = None"
| "truthy (Some s) = (if s = [] then None else Some s)"

definition or_else :: "string option \<Rightarrow> string \<Rightarrow> string" where
  "or_else a d = (case truthy a of Some s \<Rightarrow> s | None \<Rightarrow> d)"

text \<open>\<open>xs || []\<close> on an array that may be missing.\<close>

definition or_nil :: "'a list option \<Rightarrow> 'a list" where
  "or_nil a = (case a of Some xs \<Rightarrow> xs | None \<Rightarrow> [])"

subsection \<open>parseInt\<close>

text \<open>
  \<open>parseInt(s)\<close> without a radix, on texts of 8-bit code units: leading white space is
  skipped, then a sign, then \<open>0x\<close> or \<open>0X\<close> selects radix 16; the longest prefix of digits
  is read and whatever follows is ignored. No digit gives \<open>NaN\<close>.
\<close>

definition is_space :: "char \<Rightarrow> bool" where
  "is_space c = (of_char c \<in> {9, 10, 11, 12, 13, 32, 160 :: nat})"

definition digit_of :: "char \<Rightarrow> nat option" where
  "digit_of c =
     (let n = of_char c :: nat in
      if 48 \<le> n \<and> n \<le> 57 then Some (n - 48)
      else if 97 \<le> n \<and> n \<le> 122 then Some (n - 87)
      else if 65 \<le> n \<and> n \<le> 90 then Some (n - 55)
      else None)"

definition is_digit :: "nat \<Rightarrow> char \<Rightarrow> bool" where
  "is_digit R c = (case digit_of c of Some d \<Rightarrow> d < R | None \<Rightarrow> False)"

definition digit_value :: "char \<Rightarrow> nat" where
  "digit_value c = (case digit_of c of Some d \<Rightarrow> d | None \<Rightarrow> 0)"

definition digits_value :: "nat \<Rightarrow> string \<Rightarrow> nat" where
  "digits_value R z = foldl (\<lambda>a c. a * R + digit_value c) 0 z"

definition strip_sign :: "string \<Rightarrow> int \<times> string" where
  "strip_sign s =
     (case s of
        [] \<Rightarrow> (1, [])
      | c # r \<Rightarrow> if c = CHR ''-'' then (- 1, r) else if c = CHR ''+'' then (1, r) else (1, s))"

definition strip_prefix :: "string \<Rightarrow> nat \<times> string" where
  "strip_prefix s = (if take 2 s = ''0x'' \<or> take 2 s = ''0X'' then (16, drop 2 s) else (10, s))"

definition parseInt :: "string \<Rightarrow> jsnum" where
  "parseInt s =
     (let (sign, s1) = strip_sign (dropWhile is_space s);
          (R, s2) = strip_prefix s1;
          z = takeWhile (is_digit R) s2
      in if z = [] then NaN else Num (sign * int (digits_value R z)))"

section \<open>Data model\<close>

text \<open>A calendar date as \<open>getFullYear\<close>, \<open>getMonth\<close> (0 to 11) and \<open>getDate\<close> read it.\<close>

record date =
  year :: int
  month :: int
  day :: int

text \<open>A row of the table \<open>users\<close>.\<close>

record user_row =
  user_id :: nat
  email :: string
  password_hash :: string
  plan :: string
  searches_used :: int
  searches_reset_date :: date

text \<open>
  \<open>PLAN_LIMITS[plan]\<close>. The plan column is a text: a plan that is not a key of the table
  gives \<open>undefined\<close> (an inherited property such as \<open>constructor\<close> is not a number either,
  and behaves like \<open>undefined\<close> in the comparison and the subtraction of the handlers).
\<close>

definition PLAN_LIMITS :: "string \<Rightarrow> jsval" where
  "PLAN_LIMITS p =
     (if p = ''pro'' then Number (Num 1000)
      else if p = ''agency'' then Number (Num 2400)
      else if p = ''unlimited'' then Number Infinity
      else if p = ''admin'' then Number Infinity
      else Undefined)"

text \<open>A place of the text search, the reply of a detail lookup, and a lead of the response.\<close>

record place =
  name :: string
  formatted_address :: "string option"
  place_id :: string
  rating :: "rat option"

record detail =
  result_formatted_address :: "string option"
  result_formatted_phone_number :: "string option"
  result_website :: "string option"

record lead =
  businessName :: string
  address :: string
  phone :: "string option"
  website :: "string option"
  placeId :: string
  lead_rating :: "rat option"

text \<open>
  What \<open>googleGet\<close> gives: the promise is rejected with an error (network failure, or a
  body that is not JSON), or resolved with the parsed reply. \<open>Rejected\<close> carries the
  error's message; it also stands for a reply whose shape makes the handler throw while
  reading it.
\<close>

datatype 'a reply = Rejected string | Resolved 'a

text \<open>
  The provider, as the handler sees it. A geocode reply is the location of its first
  result, if it has one; a text-search reply is its \<open>results\<close> array, if it has one; a
  detail reply is its \<open>result\<close> object, if it has one. Coordinates are kept as the text
  that goes into the next URL. The detail lookups are separate calls: the reply may
  depend on the position of the candidate as well as on its place id.
\<close>

record provider =
  geocode :: "string \<Rightarrow> (string \<times> string) option reply"
  textsearch :: "string \<Rightarrow> string \<Rightarrow> string \<Rightarrow> place list option reply"
  details :: "nat \<Rightarrow> string \<Rightarrow> detail option reply"

text \<open>The provider calls a request issues, in order.\<close>

datatype call = Geocode string | TextSearch string string string | Details string

text \<open>
  The \<open>error\<close> text of a response: a literal of the source or the message of a caught
  error (\<open>Plain\<close>), or the template of the quota message with the remaining count in it.
\<close>

datatype message = Plain string | SearchesLeft jsnum

record user_info =
  info_id :: nat
  info_email :: string
  info_plan :: string
  info_searches_used :: int
  info_searches_remaining :: jsval
  info_limit :: jsval

text \<open>
  The object given to \<open>respond\<close>, before \<open>JSON.stringify\<close> (which writes \<open>NaN\<close> as \<open>null\<close>
  and leaves out an \<open>undefined\<close> field): the error body; the body of the 403 with error,
  searches_used, searches_remaining, limit and plan; the body of a search with results,
  searches_used, searches_remaining and limit; the bodies of \<open>/auth/me\<close> and \<open>/auth/login\<close>.
\<close>

datatype body =
    ErrorBody message
  | QuotaBody message int jsnum jsval string
  | ResultsBody "lead list" int jsval jsval
  | UserBody user_info
  | TokenBody string user_info

type_synonym response = "nat \<times> body"

text \<open>
  A request to \<open>/search\<close>: what \<open>verifyToken\<close> gave (the user id of the token, or nothing
  when the token is missing or does not verify) and the four query parameters.
\<close>

record request =
  decoded :: "nat option"
  type_param :: "string option"
  location_param :: "string option"
  limit_param :: "string option"
  details_param :: "string option"

section \<open>The account store\<close>

text \<open>
  The table is a list of rows; a query by id or by email takes the first row that
  matches, an update changes every row with the id. Queries are taken to succeed.
\<close>

text \<open>
  The test of \<open>getUser\<close> and of the login handler:
  \<open>now.getFullYear() > resetDate.getFullYear() || now.getMonth() > resetDate.getMonth()\<close>.
\<close>

definition month_advanced :: "date \<Rightarrow> date \<Rightarrow> bool" where
  "month_advanced now resetDate = (year now > year resetDate \<or> month now > month resetDate)"

text \<open>
  \<open>UPDATE users SET searches_used = 0, searches_reset_date = CURRENT_DATE WHERE id = $1\<close>;
  \<open>today\<close> is the date of the database.
\<close>

definition reset_usage :: "date \<Rightarrow> nat \<Rightarrow> user_row list \<Rightarrow> user_row list" where
  "reset_usage today i users =
     map (\<lambda>u. if user_id u = i then u\<lparr>searches_used := 0, searches_reset_date := today\<rparr> else u) users"

text \<open>\<open>UPDATE users SET searches_used = searches_used + $1 WHERE id = $2\<close>.\<close>

definition add_usage :: "int \<Rightarrow> nat \<Rightarrow> user_row list \<Rightarrow> user_row list" where
  "add_usage n i users =
     map (\<lambda>u. if user_id u = i then u\<lparr>searches_used := searches_used u + n\<rparr> else u) users"

text \<open>
  \<open>getUser\<close>: the row of the id, after the lazy reset. \<open>now\<close> is the clock of the server,
  \<open>today\<close> the date of the database. The object returned has its usage set to 0; its
  reset date stays what was read.
\<close>

definition getUser :: "date \<Rightarrow> date \<Rightarrow> nat \<Rightarrow> user_row list \<Rightarrow> user_row option \<times> user_row list" where
  "getUser now today userId users =
     (case find (\<lambda>u. user_id u = userId) users of
        None \<Rightarrow> (None, users)
      | Some user \<Rightarrow>
          if month_advanced now (searches_reset_date user)
          then (Some (user\<lparr>searches_used := 0\<rparr>), reset_usage today userId users)
          else (Some user, users))"

section \<open>The search handler\<close>

text \<open>
  The lead made of the summary alone (the \<open>catch\<close> branch, and every lead when details
  are off) and the lead made with a detail reply \<open>d\<close>. \<open>p.rating || null\<close> sends the rating
  0 to \<open>null\<close>; \<open>d.result?.f\<close> is \<open>undefined\<close> when the reply has no \<open>result\<close>.
\<close>

definition summary_lead :: "place \<Rightarrow> lead" where
  "summary_lead p =
     \<lparr>businessName = name p, address = or_else (formatted_address p) [],
      phone = None, website = None, placeId = place_id p,
      lead_rating = (case rating p of Some r \<Rightarrow> if r = 0 then None else Some r | None \<Rightarrow> None)\<rparr>"

definition detailed_lead :: "place \<Rightarrow> detail option \<Rightarrow> lead" where
  "detailed_lead p d =
     \<lparr>businessName = name p,
      address = or_else (Option.bind d result_formatted_address) (or_else (formatted_address p) []),
      phone = truthy (Option.bind d result_formatted_phone_number),
      website = truthy (Option.bind d result_website),
      placeId = place_id p,
      lead_rating = (case rating p of Some r \<Rightarrow> if r = 0 then None else Some r | None \<Rightarrow> None)\<rparr>"

text \<open>The body of the \<open>map\<close> under \<open>Promise.all\<close>: a rejected lookup is caught.\<close>

definition enrich_one :: "provider \<Rightarrow> nat \<times> place \<Rightarrow> lead" where
  "enrich_one P ip =
     (case details P (fst ip) (place_id (snd ip)) of
        Resolved d \<Rightarrow> detailed_lead (snd ip) d
      | Rejected _ \<Rightarrow> summary_lead (snd ip))"

definition enrich :: "provider \<Rightarrow> place list \<Rightarrow> lead list" where
  "enrich P places = map (enrich_one P) (enumerate 0 places)"

text \<open>The quota test: \<open>planLimit !== Infinity && user.searches_used + limit > planLimit\<close>.\<close>

definition over_quota :: "jsval \<Rightarrow> int \<Rightarrow> jsnum \<Rightarrow> bool" where
  "over_quota planLimit used limit =
     (planLimit \<noteq> Number Infinity \<and> js_gt (js_add used limit) (to_number planLimit))"

text \<open>\<open>planLimit === Infinity ? null : planLimit - used\<close> and \<open>planLimit === Infinity ? null : planLimit\<close>.\<close>

definition remaining_or_null :: "jsval \<Rightarrow> int \<Rightarrow> jsval" where
  "remaining_or_null planLimit used =
     (if planLimit = Number Infinity then Null else Number (js_sub (to_number planLimit) used))"

definition limit_or_null :: "jsval \<Rightarrow> jsval" where
  "limit_or_null planLimit = (if planLimit = Number Infinity then Null else planLimit)"

text \<open>\<open>Math.min(parseInt(url.searchParams.get("limit") || "10"), 25)\<close>.\<close>

definition requested_limit :: "request \<Rightarrow> jsnum" where
  "requested_limit req = math_min (parseInt (or_else (limit_param req) ''10'')) 25"

text \<open>
  The handler of \<open>/search\<close>. It gives the response, the table afterwards and the provider
  calls it issued. The first message has a dash that is not ASCII in the source.
\<close>

definition search ::
  "provider \<Rightarrow> date \<Rightarrow> date \<Rightarrow> request \<Rightarrow> user_row list \<Rightarrow> response \<times> user_row list \<times> call list" where
  "search P now today req users =
     (case decoded req of
        None \<Rightarrow> ((401, ErrorBody (Plain ''Unauthorized - please log in'')), users, [])
      | Some userId \<Rightarrow>
         (let type = or_else (type_param req) [];
              location = or_else (location_param req) [];
              limit = requested_limit req;
              details_flag = (details_param req \<noteq> Some ''false'')
          in (case getUser now today userId users of
               (None, users1) \<Rightarrow> ((401, ErrorBody (Plain ''User not found'')), users1, [])
             | (Some user, users1) \<Rightarrow>
                (let planLimit = PLAN_LIMITS (plan user) in
                 if over_quota planLimit (searches_used user) limit
                 then (let remaining = js_sub (to_number planLimit) (searches_used user)
                       in ((403, QuotaBody (SearchesLeft remaining) (searches_used user) remaining
                                   planLimit (plan user)), users1, []))
                 else
                  (case geocode P location of
                     Rejected msg \<Rightarrow> ((500, ErrorBody (Plain msg)), users1, [Geocode location])
                   | Resolved None \<Rightarrow>
                       ((404, ErrorBody (Plain ''Location not found'')), users1, [Geocode location])
                   | Resolved (Some (lat, lng)) \<Rightarrow>
                       (case textsearch P type lat lng of
                          Rejected msg \<Rightarrow>
                            ((500, ErrorBody (Plain msg)), users1,
                             [Geocode location, TextSearch type lat lng])
                        | Resolved results \<Rightarrow>
                           (let places = slice0 (or_nil results) limit;
                                actualCount = int (length places);
                                detailed = (if details_flag then enrich P places
                                            else map summary_lead places);
                                users2 = add_usage actualCount (user_id user) users1;
                                newUsed = searches_used user + actualCount
                            in ((200, ResultsBody detailed newUsed
                                        (remaining_or_null planLimit newUsed)
                                        (limit_or_null planLimit)),
                                users2,
                                [Geocode location, TextSearch type lat lng] @
                                (if details_flag then map (\<lambda>p. Details (place_id p)) places
                                 else [])))))))))"

section \<open>The handlers of /auth/me and /auth/login\<close>

definition user_info_of :: "user_row \<Rightarrow> user_info" where
  "user_info_of user =
     (let limit = PLAN_LIMITS (plan user) in
      \<lparr>info_id = user_id user, info_email = email user, info_plan = plan user,
       info_searches_used = searches_used user,
       info_searches_remaining = remaining_or_null limit (searches_used user),
       info_limit = limit_or_null limit\<rparr>)"

text \<open>\<open>GET /auth/me\<close>, from what \<open>verifyToken\<close> gave.\<close>

definition auth_me :: "date \<Rightarrow> date \<Rightarrow> nat option \<Rightarrow> user_row list \<Rightarrow> response \<times> user_row list" where
  "auth_me now today dec users =
     (case dec of
        None \<Rightarrow> ((401, ErrorBody (Plain ''Unauthorized'')), users)
      | Some userId \<Rightarrow>
         (case getUser now today userId users of
            (None, users1) \<Rightarrow> ((404, ErrorBody (Plain ''User not found'')), users1)
          | (Some user, users1) \<Rightarrow> ((200, UserBody (user_info_of user)), users1)))"

text \<open>
  \<open>POST /auth/login\<close>. The password check, the signing of the token and
  \<open>toLowerCase().trim()\<close> belong to the runtime and its libraries: they are parameters.
\<close>

record runtime =
  bcrypt_compare :: "string \<Rightarrow> string \<Rightarrow> bool"
  jwt_sign :: "nat \<Rightarrow> string \<Rightarrow> string"
  lower_trim :: "string \<Rightarrow> string"

definition login ::
  "runtime \<Rightarrow> date \<Rightarrow> date \<Rightarrow> string option \<Rightarrow> string option \<Rightarrow> user_row list \<Rightarrow> response \<times> user_row list" where
  "login rt now today email_field password_field users =
     (case (truthy email_field, truthy password_field) of
        (Some em, Some pw) \<Rightarrow>
         (case find (\<lambda>u. email u = lower_trim rt em) users of
            None \<Rightarrow> ((401, ErrorBody (Plain ''Invalid email or password'')), users)
          | Some user \<Rightarrow>
              if \<not> bcrypt_compare rt pw (password_hash user)
              then ((401, ErrorBody (Plain ''Invalid email or password'')), users)
              else
               (let reset = month_advanced now (searches_reset_date user);
                    user1 = (if reset then user\<lparr>searches_used := 0\<rparr> else user);
                    users1 = (if reset then reset_usage today (user_id user) users else users)
                in ((200, TokenBody (jwt_sign rt (user_id user) (email user)) (user_info_of user1)),
                    users1)))
      | _ \<Rightarrow> ((400, ErrorBody (Plain ''Email and password required'')), users))"


section \<open>Notions the properties are stated with\<close>

text \<open>The usage stored for an id, and the usage a read through \<open>getUser\<close> reports for it.\<close>

definition stored_used :: "nat \<Rightarrow> user_row list \<Rightarrow> int option" where
  "stored_used i users = map_option searches_used (find (\<lambda>u. user_id u = i) users)"

definition observed_used :: "date \<Rightarrow> date \<Rightarrow> nat \<Rightarrow> user_row list \<Rightarrow> int option" where
  "observed_used now today i users = map_option searches_used (fst (getUser now today i users))"

text \<open>The detail lookup of a candidate (with its position) was rejected.\<close>

definition lookup_failed :: "provider \<Rightarrow> nat \<times> place \<Rightarrow> bool" where
  "lookup_failed P ip =
     (case details P (fst ip) (place_id (snd ip)) of Rejected _ \<Rightarrow> True | Resolved _ \<Rightarrow> False)"

text \<open>
  The detail lookup of a candidate was resolved, with a reply that has neither a phone
  number nor a website.
\<close>

definition lookup_blank :: "provider \<Rightarrow> nat \<times> place \<Rightarrow> bool" where
  "lookup_blank P ip =
     (case details P (fst ip) (place_id (snd ip)) of
        Rejected _ \<Rightarrow> False
      | Resolved d \<Rightarrow> truthy (Option.bind d result_formatted_phone_number) = None \<and>
                     truthy (Option.bind d result_website) = None)"

text \<open>The leads of a response body.\<close>

definition leads_of :: "body \<Rightarrow> lead list" where
  "leads_of b = (case b of ResultsBody leads _ _ _ \<Rightarrow> leads | _ \<Rightarrow> [])"

text \<open>A lead without phone and website.\<close>

definition bare :: "lead \<Rightarrow> bool" where
  "bare l = (phone l = None \<and> website l = None)"

text \<open>
  The rollover test in the words of the specification: the current (year, month) is
  strictly greater than the stored one, in lexicographic order.
\<close>

definition spec_month_advanced :: "date \<Rightarrow> date \<Rightarrow> bool" where
  "spec_month_advanced now resetDate =
     (year now > year resetDate \<or> (year now = year resetDate \<and> month now > month resetDate))"

section \<open>Example data\<close>

definition example_today :: date where
  "example_today = \<lparr>year = 2026, month = 10, day = 3\<rparr>"

definition example_account :: user_row where
  "example_account =
     \<lparr>user_id = 1, email = ''ada@example.org'', password_hash = ''$2b$12$h'', plan = ''pro'',
      searches_used = 990, searches_reset_date = \<lparr>year = 2026, month = 10, day = 1\<rparr>\<rparr>"

definition example_users :: "user_row list" where
  "example_users = [example_account]"

definition example_places :: "place list" where
  "example_places =
     [\<lparr>name = ''Cafe A'', formatted_address = Some ''1 rue A'', place_id = ''pa'', rating = Some (9 / 2)\<rparr>,
      \<lparr>name = ''Cafe B'', formatted_address = Some ''2 rue B'', place_id = ''pb'', rating = None\<rparr>,
      \<lparr>name = ''Cafe C'', formatted_address = None, place_id = ''pc'', rating = Some 4\<rparr>]"

definition example_detail :: detail where
  "example_detail =
     \<lparr>result_formatted_address = Some ''1 rue A, Paris'',
      result_formatted_phone_number = Some ''01 02 03'', result_website = Some ''https://a.example''\<rparr>"

text \<open>
  A provider that knows Paris only, gives three candidates, and whose detail lookup of
  \<open>pb\<close> fails.
\<close>

definition example_provider :: provider where
  "example_provider =
     \<lparr>geocode = (\<lambda>l. if l = ''Paris'' then Resolved (Some (''48.85'', ''2.35''))
                     else Resolved None),
      textsearch = (\<lambda>t lat lng. Resolved (Some example_places)),
      details = (\<lambda>i pid. if pid = ''pb'' then Rejected ''socket hang up''
                         else Resolved (Some example_detail))\<rparr>"

definition example_request :: request where
  "example_request =
     \<lparr>decoded = Some 1, type_param = Some ''cafe'', location_param = Some ''Paris'',
      limit_param = Some ''10'', details_param = None\<rparr>"

text \<open>Variants of the request: one lead too many, an unknown location, a limit that is no number.\<close>

definition example_over_request :: request where
  "example_over_request = example_request\<lparr>limit_param := Some ''11''\<rparr>"

definition example_nowhere_request :: request where
  "example_nowhere_request = example_request\<lparr>location_param := Some ''Atlantis''\<rparr>"

definition example_nan_request :: request where
  "example_nan_request = example_request\<lparr>limit_param := Some ''abc''\<rparr>"

definition example_nan_nowhere_request :: request where
  "example_nan_nowhere_request =
     example_request\<lparr>limit_param := Some ''abc'', location_param := Some ''Atlantis''\<rparr>"

text \<open>A token whose account is gone.\<close>

definition example_orphan_request :: request where
  "example_orphan_request = example_request\<lparr>decoded := Some 7\<rparr>"

text \<open>An account whose usage is above the limit of its plan.\<close>

definition example_overdrawn_users :: "user_row list" where
  "example_overdrawn_users = [example_account\<lparr>searches_used := 1005\<rparr>]"

text \<open>
  An account whose reset date is 1 January 2027, read on 31 December 2026: the date of
  the database was a day ahead of the clock of the server when the row was written.
\<close>

definition example_new_year_eve :: date where
  "example_new_year_eve = \<lparr>year = 2026, month = 11, day = 31\<rparr>"

definition example_new_year :: date where
  "example_new_year = \<lparr>year = 2027, month = 0, day = 1\<rparr>"

definition example_ahead_account :: user_row where
  "example_ahead_account = example_account\<lparr>searches_used := 40, searches_reset_date := example_new_year\<rparr>"

definition example_runtime :: runtime where
  "example_runtime =
     \<lparr>bcrypt_compare = (\<lambda>pw h. pw = ''correct horse'' \<and> h = ''$2b$12$h''),
      jwt_sign = (\<lambda>i e. ''token''),
      lower_trim = (\<lambda>s. s)\<rparr>"

text \<open>
  The same provider, except that the detail reply for \<open>pa\<close> arrives without a \<open>result\<close>.
\<close>

definition example_sparse_provider :: provider where
  "example_sparse_provider =
     example_provider\<lparr>details := (\<lambda>i pid. if pid = ''pb'' then Rejected ''socket hang up''
                                         else if pid = ''pa'' then Resolved None
                                         else Resolved (Some example_detail))\<rparr>"

text \<open>A provider that cannot be reached.\<close>

definition example_down_provider :: provider where
  "example_down_provider =
     example_provider\<lparr>geocode := (\<lambda>l. Rejected ''getaddrinfo ENOTFOUND maps.googleapis.com'')\<rparr>"

section \<open>Facts about the model\<close>

subsection \<open>The account store\<close>

lemma find_user_id: "find (\<lambda>u. user_id u = i) users = Some u \<Longrightarrow> user_id u = i"
  by (induction users) (auto split: if_splits)

lemma find_map_keep_id:
  assumes "\<And>u. user_id (f u) = user_id u"
  shows "find (\<lambda>u. user_id u = i) (map f users) = map_option f (find (\<lambda>u. user_id u = i) users)"
  using assms by (induction users) auto

lemma find_reset_usage:
  "find (\<lambda>u. user_id u = j) (reset_usage today i users) =
     map_option (\<lambda>u. if user_id u = i then u\<lparr>searches_used := 0, searches_reset_date := today\<rparr> else u)
       (find (\<lambda>u. user_id u = j) users)"
  unfolding reset_usage_def by (rule find_map_keep_id) simp

lemma find_add_usage:
  "find (\<lambda>u. user_id u = j) (add_usage n i users) =
     map_option (\<lambda>u. if user_id u = i then u\<lparr>searches_used := searches_used u + n\<rparr> else u)
       (find (\<lambda>u. user_id u = j) users)"
  unfolding add_usage_def by (rule find_map_keep_id) simp

lemma reset_usage_idem: "reset_usage today i (reset_usage today i users) = reset_usage today i users"
  by (simp add: reset_usage_def)

lemma add_usage_zero: "add_usage 0 i users = users"
  by (simp add: add_usage_def map_idI)

lemma getUser_None: "getUser now today i users = (None, users1) \<Longrightarrow> users1 = users \<and> find (\<lambda>u. user_id u = i) users = None"
  by (auto simp: getUser_def split: option.splits if_splits)

lemma getUser_Some:
  assumes "getUser now today i users = (Some user, users1)"
  shows "user_id user = i" and "stored_used i users1 = Some (searches_used user)"
    and "\<exists>u. find (\<lambda>u. user_id u = i) users = Some u \<and> plan user = plan u \<and>
           (if month_advanced now (searches_reset_date u)
            then user = u\<lparr>searches_used := 0\<rparr> \<and> users1 = reset_usage today i users
            else user = u \<and> users1 = users)"
  using assms
  by (auto simp: getUser_def stored_used_def find_reset_usage dest: find_user_id split: option.splits if_splits)

lemma getUser_again:
  assumes "getUser now today i users = (Some user, users1)"
  shows "\<exists>user'. getUser now today i users1 = (Some user', users1) \<and> plan user' = plan user \<and>
           searches_used user' = searches_used user \<and> user_id user' = user_id user"
proof -
  from getUser_Some(3)[OF assms] obtain u where
    u: "find (\<lambda>u. user_id u = i) users = Some u" and
    c: "if month_advanced now (searches_reset_date u)
        then user = u\<lparr>searches_used := 0\<rparr> \<and> users1 = reset_usage today i users
        else user = u \<and> users1 = users"
    by blast
  have id: "user_id u = i" using u by (rule find_user_id)
  show ?thesis
  proof (cases "month_advanced now (searches_reset_date u)")
    case True
    with c u id show ?thesis
      by (simp add: getUser_def find_reset_usage reset_usage_idem)
  next
    case False
    with c u show ?thesis by (simp add: getUser_def)
  qed
qed

lemma stored_used_add:
  assumes "stored_used i users = Some k"
  shows "stored_used i (add_usage n i users) = Some (k + n)"
proof -
  from assms obtain z where z: "find (\<lambda>u. user_id u = i) users = Some z" "searches_used z = k"
    by (auto simp: stored_used_def)
  from z(1) have "user_id z = i" by (rule find_user_id)
  with z show ?thesis by (simp add: stored_used_def find_add_usage)
qed

lemma observed_used_find:
  "observed_used now today i users =
     (case find (\<lambda>u. user_id u = i) users of None \<Rightarrow> None
      | Some u \<Rightarrow> Some (if month_advanced now (searches_reset_date u) then 0 else searches_used u))"
  by (simp add: observed_used_def getUser_def split: option.splits)

lemma observed_used_reset:
  assumes "find (\<lambda>u. user_id u = j) users = Some v" and "month_advanced now (searches_reset_date v)"
  shows "observed_used now today i (reset_usage today j users) = observed_used now today i users"
proof (cases "find (\<lambda>u. user_id u = i) users")
  case None
  then show ?thesis by (simp add: observed_used_find find_reset_usage)
next
  case (Some u)
  show ?thesis
  proof (cases "i = j")
    case True
    with Some assms have "u = v" by simp
    with Some assms True show ?thesis
      using find_user_id[OF Some] by (simp add: observed_used_find find_reset_usage)
  next
    case False
    with Some show ?thesis
      using find_user_id[OF Some] by (simp add: observed_used_find find_reset_usage)
  qed
qed

lemma observed_used_getUser:
  "observed_used now today i (snd (getUser now today j users)) = observed_used now today i users"
  by (cases "find (\<lambda>u. user_id u = j) users")
     (simp_all add: getUser_def observed_used_reset)

subsection \<open>The rollover test\<close>

lemma month_advanced_agrees:
  assumes "year resetDate \<le> year now"
  shows "month_advanced now resetDate = spec_month_advanced now resetDate"
  using assms by (auto simp: month_advanced_def spec_month_advanced_def)

lemma month_advanced_same_month:
  assumes "year now = year resetDate" and "month now = month resetDate"
  shows "\<not> month_advanced now resetDate"
  using assms by (simp add: month_advanced_def)

subsection \<open>The requested count and the quota test\<close>

lemma requested_limit_le: "requested_limit req = Num r \<Longrightarrow> r \<le> 25"
  by (cases "parseInt (or_else (limit_param req) ''10'')") (auto simp: requested_limit_def)

lemma requested_limit_NaN:
  assumes "limit_param req = Some s" and "s \<noteq> []" and "parseInt s = NaN"
  shows "requested_limit req = NaN"
  using assms by (simp add: requested_limit_def or_else_def)

lemma js_gt_NaN_right: "\<not> js_gt a NaN"
  by (cases a) simp_all

lemma not_over_quota_NaN: "\<not> over_quota planLimit used NaN"
  by (simp add: over_quota_def)

lemma over_quota_bounded:
  assumes "over_quota (PLAN_LIMITS p) used limit"
  shows "(p = ''pro'' \<or> p = ''agency'') \<and> (\<exists>L. PLAN_LIMITS p = Number (Num L))"
  using assms by (auto simp: over_quota_def PLAN_LIMITS_def js_gt_NaN_right split: if_splits)

subsection \<open>Enrichment\<close>

lemma length_enrich: "length (enrich P places) = length places"
  by (simp add: enrich_def)

lemma enrich_Nil: "enrich P [] = []"
  by (simp add: enrich_def)

lemma enrich_nth:
  assumes "i < length places"
  shows "enrich P places ! i = enrich_one P (i, places ! i)"
  using assms by (simp add: enrich_def nth_enumerate_eq)

lemma length_filter_disj:
  assumes "\<And>x. x \<in> set xs \<Longrightarrow> \<not> (A x \<and> B x)"
  shows "length (filter (\<lambda>x. A x \<or> B x) xs) = length (filter A xs) + length (filter B xs)"
  using assms by (induction xs) auto

lemma bare_enrich_one: "bare (enrich_one P ip) = (lookup_failed P ip \<or> lookup_blank P ip)"
  by (cases "details P (fst ip) (place_id (snd ip))")
     (simp_all add: enrich_one_def lookup_failed_def lookup_blank_def bare_def
                    summary_lead_def detailed_lead_def)

lemma failed_not_blank: "\<not> (lookup_failed P ip \<and> lookup_blank P ip)"
  by (cases "details P (fst ip) (place_id (snd ip))")
     (simp_all add: lookup_failed_def lookup_blank_def)

lemma count_bare_enrich:
  "length (filter bare (enrich P places)) =
     length (filter (lookup_failed P) (enumerate 0 places)) +
     length (filter (lookup_blank P) (enumerate 0 places))"
proof -
  have "length (filter bare (enrich P places)) =
        length (filter (\<lambda>ip. lookup_failed P ip \<or> lookup_blank P ip) (enumerate 0 places))"
    by (simp add: enrich_def filter_map comp_def bare_enrich_one)
  also have "\<dots> = length (filter (lookup_failed P) (enumerate 0 places)) +
                   length (filter (lookup_blank P) (enumerate 0 places))"
    by (rule length_filter_disj) (rule failed_not_blank)
  finally show ?thesis .
qed

lemma no_blank_lookup:
  assumes "\<And>i d. i < length places \<Longrightarrow> details P i (place_id (places ! i)) = Resolved d \<Longrightarrow>
             truthy (Option.bind d result_formatted_phone_number) \<noteq> None \<or>
             truthy (Option.bind d result_website) \<noteq> None"
  shows "filter (lookup_blank P) (enumerate 0 places) = []"
proof -
  have "\<not> lookup_blank P ip" if "ip \<in> set (enumerate 0 places)" for ip
  proof -
    obtain i p where ip: "ip = (i, p)" by (cases ip)
    with that have i: "i < length places" and p: "p = places ! i"
      by (simp_all add: in_set_enumerate_eq)
    show ?thesis
      using assms[OF i] ip p
      by (cases "details P i (place_id p)") (auto simp: lookup_blank_def)
  qed
  then show ?thesis by (simp add: filter_empty_conv)
qed

lemma enrich_one_fields:
  "businessName (enrich_one P (i, p)) = name p"
  "placeId (enrich_one P (i, p)) = place_id p"
  "lead_rating (enrich_one P (i, p)) =
     (case rating p of Some r \<Rightarrow> if r = 0 then None else Some r | None \<Rightarrow> None)"
  "details P i (place_id p) = Rejected m \<Longrightarrow>
     address (enrich_one P (i, p)) = or_else (formatted_address p) [] \<and>
     phone (enrich_one P (i, p)) = None \<and> website (enrich_one P (i, p)) = None"
  "details P i (place_id p) = Resolved d \<Longrightarrow>
     address (enrich_one P (i, p)) =
       or_else (Option.bind d result_formatted_address) (or_else (formatted_address p) []) \<and>
     phone (enrich_one P (i, p)) = truthy (Option.bind d result_formatted_phone_number) \<and>
     website (enrich_one P (i, p)) = truthy (Option.bind d result_website)"
  by (simp_all add: enrich_one_def summary_lead_def detailed_lead_def split: reply.splits)

subsection \<open>The outcomes of the search handler\<close>

lemma search_success:
  assumes "decoded req = Some uid"
      and "getUser now today uid users = (Some user, users1)"
      and "\<not> over_quota (PLAN_LIMITS (plan user)) (searches_used user) (requested_limit req)"
      and "geocode P (or_else (location_param req) []) = Resolved (Some (lat, lng))"
      and "textsearch P (or_else (type_param req) []) lat lng = Resolved results"
      and "places = slice0 (or_nil results) (requested_limit req)"
  shows "search P now today req users =
           ((200, ResultsBody
                    (if details_param req \<noteq> Some ''false'' then enrich P places
                     else map summary_lead places)
                    (searches_used user + int (length places))
                    (remaining_or_null (PLAN_LIMITS (plan user)) (searches_used user + int (length places)))
                    (limit_or_null (PLAN_LIMITS (plan user)))),
            add_usage (int (length places)) uid users1,
            [Geocode (or_else (location_param req) []),
             TextSearch (or_else (type_param req) []) lat lng] @
            (if details_param req \<noteq> Some ''false'' then map (\<lambda>p. Details (place_id p)) places
             else []))"
  using assms getUser_Some(1)[OF assms(2)]
  by (simp add: search_def Let_def)

lemma search_200:
  assumes "search P now today req users = (resp, users', calls)" and "fst resp = 200"
  shows "\<exists>uid user users1 lat lng results.
           decoded req = Some uid \<and>
           getUser now today uid users = (Some user, users1) \<and>
           \<not> over_quota (PLAN_LIMITS (plan user)) (searches_used user) (requested_limit req) \<and>
           geocode P (or_else (location_param req) []) = Resolved (Some (lat, lng)) \<and>
           textsearch P (or_else (type_param req) []) lat lng = Resolved results"
  using assms
  by (auto simp: search_def Let_def split: reply.splits option.splits prod.splits if_splits)

lemma search_403:
  assumes "search P now today req users = (resp, users', calls)" and "fst resp = 403"
  shows "\<exists>uid user users1.
           decoded req = Some uid \<and> getUser now today uid users = (Some user, users1) \<and>
           over_quota (PLAN_LIMITS (plan user)) (searches_used user) (requested_limit req) \<and>
           snd resp = QuotaBody
                        (SearchesLeft (js_sub (to_number (PLAN_LIMITS (plan user))) (searches_used user)))
                        (searches_used user)
                        (js_sub (to_number (PLAN_LIMITS (plan user))) (searches_used user))
                        (PLAN_LIMITS (plan user)) (plan user)"
  using assms
  by (auto simp: search_def Let_def split: reply.splits option.splits prod.splits if_splits)

lemma search_failure:
  assumes "search P now today req users = (resp, users', calls)" and "fst resp \<noteq> 200"
  shows "fst resp \<in> {401, 403, 404, 500}"
    and "users' = (case decoded req of None \<Rightarrow> users | Some uid \<Rightarrow> snd (getUser now today uid users))"
  using assms
  by (auto simp: search_def Let_def split: reply.splits option.splits prod.splits if_splits)

lemma search_same_account:
  assumes "decoded req = Some uid"
      and "getUser now today uid users = (Some user, users1)"
      and "getUser now today uid usersB = (Some userB, usersB1)"
      and "plan userB = plan user" and "searches_used userB = searches_used user"
      and "fst (fst (search P now today req users)) \<noteq> 200"
  shows "search P now today req usersB =
           (fst (search P now today req users), usersB1, snd (snd (search P now today req users)))"
  using assms
  by (auto simp: search_def Let_def split: reply.splits option.splits prod.splits if_splits)

section \<open>The properties\<close>

subsection \<open>C1: quota admission\<close>

text \<open>
  C1. For an account that \<open>getUser\<close> has loaded and a request whose clamped count is a
  number \<open>r\<close>: on the plan \<open>pro\<close> the request passes the quota test (the response is not
  the 403 and the provider is called) if and only if \<open>searches_used + r \<le> 1000\<close>, on the
  plan \<open>agency\<close> if and only if \<open>searches_used + r \<le> 2400\<close>; so the boundary case, where the
  sum equals the limit, is admitted. On the plans \<open>unlimited\<close> and \<open>admin\<close> the request is
  always admitted. The usage is the one \<open>getUser\<close> returned, after its lazy reset.
\<close>

theorem quota_admission:
  assumes "decoded req = Some uid"
      and "getUser now today uid users = (Some user, users1)"
      and "search P now today req users = (resp, users', calls)"
  shows "(plan user = ''pro'' \<longrightarrow>
            (\<forall>r. requested_limit req = Num r \<longrightarrow>
               ((fst resp \<noteq> 403 \<and> calls \<noteq> []) \<longleftrightarrow> searches_used user + r \<le> 1000))) \<and>
         (plan user = ''agency'' \<longrightarrow>
            (\<forall>r. requested_limit req = Num r \<longrightarrow>
               ((fst resp \<noteq> 403 \<and> calls \<noteq> []) \<longleftrightarrow> searches_used user + r \<le> 2400))) \<and>
         (plan user = ''unlimited'' \<or> plan user = ''admin'' \<longrightarrow> fst resp \<noteq> 403 \<and> calls \<noteq> [])"
  using assms
  by (auto simp: search_def Let_def over_quota_def PLAN_LIMITS_def
           split: reply.splits option.splits prod.splits if_splits)

text \<open>The boundary case: 990 used, 10 requested, on the plan \<open>pro\<close>.\<close>

theorem quota_admission_witness:
  "searches_used example_account + 10 = 1000 \<and>
   fst (fst (search example_provider example_today example_today example_request example_users)) \<noteq> 403 \<and>
   snd (snd (search example_provider example_today example_today example_request example_users)) \<noteq> []"
proof -
  let ?out = "search example_provider example_today example_today example_request example_users"
  have dec: "decoded example_request = Some 1"
    by (simp add: example_request_def)
  have gu: "getUser example_today example_today 1 example_users = (Some example_account, example_users)"
    by code_simp
  have run: "?out = (fst ?out, fst (snd ?out), snd (snd ?out))"
    by simp
  have lim: "requested_limit example_request = Num 10"
    by code_simp
  have pl: "plan example_account = ''pro''" and used: "searches_used example_account = 990"
    by (simp_all add: example_account_def)
  from quota_admission[OF dec gu run] pl lim used show ?thesis
    by simp
qed

subsection \<open>C2: the debit is the number of leads returned\<close>

text \<open>
  C2. Every request answered with 200 went through the geocode and the text-search call;
  its leads are as many as the candidates left by the truncation to the clamped count;
  the usage stored for the account afterwards is the usage \<open>getUser\<close> had read plus the
  number of leads, and this is also the \<open>searches_used\<close> of the response. When the
  provider has fewer candidates than requested, the number of leads, hence the debit, is
  the number of candidates and not the requested count.
\<close>

theorem debit_equals_returned:
  assumes "search P now today req users = (resp, users', calls)" and "fst resp = 200"
  shows "\<exists>uid user users1 lat lng results leads used rem lmt.
           decoded req = Some uid \<and> getUser now today uid users = (Some user, users1) \<and>
           geocode P (or_else (location_param req) []) = Resolved (Some (lat, lng)) \<and>
           textsearch P (or_else (type_param req) []) lat lng = Resolved results \<and>
           snd resp = ResultsBody leads used rem lmt \<and>
           length leads = length (slice0 (or_nil results) (requested_limit req)) \<and>
           stored_used uid users1 = Some (searches_used user) \<and>
           stored_used uid users' = Some (searches_used user + int (length leads)) \<and>
           used = searches_used user + int (length leads) \<and>
           (\<forall>r. requested_limit req = Num r \<longrightarrow> int (length (or_nil results)) < r \<longrightarrow>
                length leads = length (or_nil results))"
proof -
  from search_200[OF assms] obtain uid user users1 lat lng results where
    dec: "decoded req = Some uid" and
    gu: "getUser now today uid users = (Some user, users1)" and
    oq: "\<not> over_quota (PLAN_LIMITS (plan user)) (searches_used user) (requested_limit req)" and
    geo: "geocode P (or_else (location_param req) []) = Resolved (Some (lat, lng))" and
    ts: "textsearch P (or_else (type_param req) []) lat lng = Resolved results"
    by blast
  define places where "places = slice0 (or_nil results) (requested_limit req)"
  define leads where "leads = (if details_param req \<noteq> Some ''false'' then enrich P places
                     else map summary_lead places)"
  have len: "length leads = length places"
    by (simp add: leads_def length_enrich)
  note run = search_success[OF dec gu oq geo ts places_def]
  from run assms(1) have
    resp: "snd resp = ResultsBody leads (searches_used user + int (length leads))
             (remaining_or_null (PLAN_LIMITS (plan user)) (searches_used user + int (length places)))
             (limit_or_null (PLAN_LIMITS (plan user)))" and
    us: "users' = add_usage (int (length leads)) uid users1"
    by (simp_all add: leads_def len[unfolded leads_def] length_enrich)
  have s1: "stored_used uid users1 = Some (searches_used user)"
    by (rule getUser_Some(2)[OF gu])
  have s2: "stored_used uid users' = Some (searches_used user + int (length leads))"
    unfolding us by (rule stored_used_add[OF s1])
  have short: "length leads = length (or_nil results)"
    if "requested_limit req = Num r" "int (length (or_nil results)) < r" for r
    using that by (simp add: len places_def)
  show ?thesis
    using dec gu geo ts resp len s1 s2 short unfolding places_def by blast
qed

text \<open>Ten leads requested, three candidates, three debited.\<close>

theorem debit_equals_returned_witness:
  "fst (fst (search example_provider example_today example_today example_request example_users)) = 200 \<and>
   requested_limit example_request = Num 10 \<and>
   stored_used 1 example_users = Some 990 \<and>
   stored_used 1 (fst (snd (search example_provider example_today example_today example_request example_users)))
     = Some 993"
proof -
  let ?out = "search example_provider example_today example_today example_request example_users"
  have run: "?out = (fst ?out, fst (snd ?out), snd (snd ?out))"
    by simp
  have ok: "fst (fst ?out) = 200"
    by code_simp
  from debit_equals_returned[OF run ok] obtain uid user users1 leads used rem lmt where
    dec: "decoded example_request = Some uid" and
    gu: "getUser example_today example_today uid example_users = (Some user, users1)" and
    body: "snd (fst ?out) = ResultsBody leads used rem lmt" and
    after: "stored_used uid (fst (snd ?out)) = Some (searches_used user + int (length leads))"
    by blast
  from dec have uid: "uid = 1"
    by (simp add: example_request_def)
  have "getUser example_today example_today 1 example_users = (Some example_account, example_users)"
    by code_simp
  with gu uid have user: "searches_used user = 990"
    by (simp add: example_account_def)
  have "length (case snd (fst ?out) of ResultsBody ls _ _ _ \<Rightarrow> ls | _ \<Rightarrow> []) = 3"
    by code_simp
  with body have n: "length leads = 3"
    by simp
  have lim: "requested_limit example_request = Num 10"
    by code_simp
  have before: "stored_used 1 example_users = Some 990"
    by code_simp
  from ok lim before after uid user n show ?thesis
    by simp
qed

subsection \<open>C3: no debit on a failure\<close>

text \<open>
  C3. A response other than 200 is a 401, 403, 404 or 500. After it the table is what it
  was, or what the lazy reset of \<open>getUser\<close> made of it when the month of the account had
  rolled over: no usage is added. The usage that a read reports, for any account at that
  time, is the same after the request as before it, and the same request repeated on the
  table left behind gives the same response, the same calls and the same table.
\<close>

theorem failure_leaves_usage:
  assumes "search P now today req users = (resp, users', calls)" and "fst resp \<noteq> 200"
  shows "fst resp \<in> {401, 403, 404, 500} \<and>
         (users' = users \<or>
          (\<exists>uid u. decoded req = Some uid \<and> find (\<lambda>u. user_id u = uid) users = Some u \<and>
             month_advanced now (searches_reset_date u) \<and> users' = reset_usage today uid users)) \<and>
         (\<forall>i. observed_used now today i users' = observed_used now today i users) \<and>
         search P now today req users' = (resp, users', calls)"
proof -
  note f = search_failure[OF assms]
  have b: "users' = users \<or>
          (\<exists>uid u. decoded req = Some uid \<and> find (\<lambda>u. user_id u = uid) users = Some u \<and>
             month_advanced now (searches_reset_date u) \<and> users' = reset_usage today uid users)"
    using f(2) by (auto simp: getUser_def split: option.splits)
  have c: "observed_used now today i users' = observed_used now today i users" for i
    using f(2) by (cases "decoded req") (simp_all add: observed_used_getUser)
  have d: "search P now today req users' = (resp, users', calls)"
  proof (cases "decoded req")
    case None
    with assms(1) f(2) show ?thesis by (simp add: search_def)
  next
    case (Some uid)
    with f(2) have u': "users' = snd (getUser now today uid users)" by simp
    show ?thesis
    proof (cases "fst (getUser now today uid users)")
      case None
      then have g: "getUser now today uid users = (None, users')"
        using u' by (cases "getUser now today uid users") simp
      from getUser_None[OF g] have "users' = users" by simp
      with assms(1) show ?thesis by simp
    next
      case (Some user)
      then have g: "getUser now today uid users = (Some user, users')"
        using u' by (cases "getUser now today uid users") simp
      from getUser_again[OF g] obtain userB where
        gB: "getUser now today uid users' = (Some userB, users')" and
        pB: "plan userB = plan user" and sB: "searches_used userB = searches_used user"
        by blast
      from assms have ne: "fst (fst (search P now today req users)) \<noteq> 200" by simp
      from search_same_account[OF \<open>decoded req = Some uid\<close> g gB pB sB ne] assms(1)
      show ?thesis by simp
    qed
  qed
  from f(1) b c d show ?thesis by blast
qed

text \<open>A location the provider does not know: 404, the table untouched, 990 still reported.\<close>

theorem failure_leaves_usage_witness:
  "fst (fst (search example_provider example_today example_today example_nowhere_request example_users)) = 404 \<and>
   fst (snd (search example_provider example_today example_today example_nowhere_request example_users))
     = example_users \<and>
   observed_used example_today example_today 1
     (fst (snd (search example_provider example_today example_today example_nowhere_request example_users)))
     = Some 990"
proof -
  let ?out = "search example_provider example_today example_today example_nowhere_request example_users"
  have run: "?out = (fst ?out, fst (snd ?out), snd (snd ?out))"
    by simp
  have st: "fst (fst ?out) = 404"
    by code_simp
  then have ne: "fst (fst ?out) \<noteq> 200"
    by simp
  have dec: "decoded example_nowhere_request = Some 1"
    by (simp add: example_nowhere_request_def example_request_def)
  have fresh: "\<not> month_advanced example_today (searches_reset_date example_account)"
    by (simp add: month_advanced_def example_today_def example_account_def)
  have found: "find (\<lambda>u. user_id u = 1) example_users = Some example_account"
    by (simp add: example_users_def example_account_def)
  have obs: "observed_used example_today example_today 1 example_users = Some 990"
    by code_simp
  from failure_leaves_usage[OF run ne] dec fresh found obs st show ?thesis
    by auto
qed

subsection \<open>C4: a failed detail lookup degrades one lead only\<close>

text \<open>
  C4, as stated, counts exactly \<open>k\<close> leads with phone and website null when \<open>k\<close> of the
  detail lookups fail. With three candidates, one lookup rejected and one reply that
  arrives without a \<open>result\<close>, the response has three leads and two of them have phone and
  website null.
\<close>

theorem bare_leads_exceed_failed_lookups:
  "fst (fst (search example_sparse_provider example_today example_today example_request example_users))
     = 200 \<and>
   length (leads_of (snd (fst (search example_sparse_provider example_today example_today
                                  example_request example_users)))) = 3 \<and>
   length (filter (lookup_failed example_sparse_provider) (enumerate 0 example_places)) = 1 \<and>
   length (filter bare (leads_of (snd (fst (search example_sparse_provider example_today example_today
                                  example_request example_users))))) = 2"
  by code_simp

text \<open>
  C4, amended. Let a request with the details flag set reach the enrichment with the
  candidates \<open>places\<close>. The response is a 200 with exactly one lead per candidate, in
  order; every lead has the name, the place id and the rating of its candidate (a rating
  of 0 becoming null). The lead of a candidate whose lookup is rejected has the address of
  the candidate and phone and website null. The lead of a candidate whose lookup is
  resolved takes address, phone and website from that reply alone, each null (for the
  address: the candidate's own) where the reply lacks it. So the leads with phone and
  website null are the \<open>k\<close> failed candidates and those whose reply has neither field; when
  every reply that arrives has a phone number or a website they are exactly \<open>k\<close>, and the
  other \<open>n - k\<close> leads carry detail fields.
\<close>

theorem enrichment_degrades:
  assumes "decoded req = Some uid"
      and "getUser now today uid users = (Some user, users1)"
      and "\<not> over_quota (PLAN_LIMITS (plan user)) (searches_used user) (requested_limit req)"
      and "geocode P (or_else (location_param req) []) = Resolved (Some (lat, lng))"
      and "textsearch P (or_else (type_param req) []) lat lng = Resolved results"
      and "places = slice0 (or_nil results) (requested_limit req)"
      and "details_param req \<noteq> Some ''false''"
      and "search P now today req users = (resp, users', calls)"
  shows "fst resp = 200 \<and> length (leads_of (snd resp)) = length places \<and>
         (\<forall>i < length places.
            businessName (leads_of (snd resp) ! i) = name (places ! i) \<and>
            placeId (leads_of (snd resp) ! i) = place_id (places ! i) \<and>
            lead_rating (leads_of (snd resp) ! i) =
              (case rating (places ! i) of Some r \<Rightarrow> if r = 0 then None else Some r | None \<Rightarrow> None) \<and>
            (\<forall>m. details P i (place_id (places ! i)) = Rejected m \<longrightarrow>
               address (leads_of (snd resp) ! i) = or_else (formatted_address (places ! i)) [] \<and>
               phone (leads_of (snd resp) ! i) = None \<and>
               website (leads_of (snd resp) ! i) = None) \<and>
            (\<forall>d. details P i (place_id (places ! i)) = Resolved d \<longrightarrow>
               address (leads_of (snd resp) ! i) =
                 or_else (Option.bind d result_formatted_address)
                   (or_else (formatted_address (places ! i)) []) \<and>
               phone (leads_of (snd resp) ! i) = truthy (Option.bind d result_formatted_phone_number) \<and>
               website (leads_of (snd resp) ! i) = truthy (Option.bind d result_website))) \<and>
         length (filter bare (leads_of (snd resp))) =
           length (filter (lookup_failed P) (enumerate 0 places)) +
           length (filter (lookup_blank P) (enumerate 0 places)) \<and>
         ((\<forall>i < length places. \<forall>d. details P i (place_id (places ! i)) = Resolved d \<longrightarrow>
              truthy (Option.bind d result_formatted_phone_number) \<noteq> None \<or>
              truthy (Option.bind d result_website) \<noteq> None) \<longrightarrow>
          length (filter bare (leads_of (snd resp))) =
            length (filter (lookup_failed P) (enumerate 0 places)) \<and>
          length (filter (\<lambda>l. \<not> bare l) (leads_of (snd resp))) =
            length places - length (filter (lookup_failed P) (enumerate 0 places)))"
proof -
  define leads where "leads = enrich P places"
  from search_success[OF assms(1-6)] assms(7,8) have
    st: "fst resp = 200" and lo: "leads_of (snd resp) = leads"
    by (auto simp: leads_def leads_of_def)
  have len: "length leads = length places"
    by (simp add: leads_def length_enrich)
  have nth: "leads ! i = enrich_one P (i, places ! i)" if "i < length places" for i
    using that by (simp add: leads_def enrich_nth)
  have pt: "businessName (leads ! i) = name (places ! i) \<and>
            placeId (leads ! i) = place_id (places ! i) \<and>
            lead_rating (leads ! i) =
              (case rating (places ! i) of Some r \<Rightarrow> if r = 0 then None else Some r | None \<Rightarrow> None) \<and>
            (\<forall>m. details P i (place_id (places ! i)) = Rejected m \<longrightarrow>
               address (leads ! i) = or_else (formatted_address (places ! i)) [] \<and>
               phone (leads ! i) = None \<and> website (leads ! i) = None) \<and>
            (\<forall>d. details P i (place_id (places ! i)) = Resolved d \<longrightarrow>
               address (leads ! i) =
                 or_else (Option.bind d result_formatted_address)
                   (or_else (formatted_address (places ! i)) []) \<and>
               phone (leads ! i) = truthy (Option.bind d result_formatted_phone_number) \<and>
               website (leads ! i) = truthy (Option.bind d result_website))"
    if "i < length places" for i
    unfolding nth[OF that] using enrich_one_fields[of P i "places ! i"] by blast
  have cnt: "length (filter bare leads) =
           length (filter (lookup_failed P) (enumerate 0 places)) +
           length (filter (lookup_blank P) (enumerate 0 places))"
    unfolding leads_def by (rule count_bare_enrich)
  have exact: "length (filter bare leads) = length (filter (lookup_failed P) (enumerate 0 places)) \<and>
            length (filter (\<lambda>l. \<not> bare l) leads) =
              length places - length (filter (lookup_failed P) (enumerate 0 places))"
    if h: "\<forall>i < length places. \<forall>d. details P i (place_id (places ! i)) = Resolved d \<longrightarrow>
              truthy (Option.bind d result_formatted_phone_number) \<noteq> None \<or>
              truthy (Option.bind d result_website) \<noteq> None"
  proof -
    have "filter (lookup_blank P) (enumerate 0 places) = []"
      using h by (intro no_blank_lookup) blast
    with cnt have e: "length (filter bare leads) = length (filter (lookup_failed P) (enumerate 0 places))"
      by simp
    have "length (filter bare leads) + length (filter (\<lambda>l. \<not> bare l) leads) = length leads"
      by (rule sum_length_filter_compl)
    with e len show ?thesis by simp
  qed
  from st len pt cnt exact show ?thesis
    unfolding lo by blast
qed

text \<open>
  Three candidates, the lookup of the second one fails and the other replies are full:
  three leads, one of them bare.
\<close>

theorem enrichment_degrades_witness:
  "length (filter (lookup_failed example_provider) (enumerate 0 example_places)) = 1 \<and>
   fst (fst (search example_provider example_today example_today example_request example_users))
     = 200 \<and>
   length (leads_of (snd (fst (search example_provider example_today example_today
                                 example_request example_users)))) = 3 \<and>
   length (filter bare (leads_of (snd (fst (search example_provider example_today example_today
                                 example_request example_users))))) = 1 \<and>
   length (filter (\<lambda>l. \<not> bare l) (leads_of (snd (fst (search example_provider example_today
                                 example_today example_request example_users))))) = 2 \<and>
   phone (leads_of (snd (fst (search example_provider example_today example_today
                                 example_request example_users))) ! 1) = None \<and>
   phone (leads_of (snd (fst (search example_provider example_today example_today
                                 example_request example_users))) ! 0) = Some ''01 02 03''"
proof -
  let ?out = "search example_provider example_today example_today example_request example_users"
  have dec: "decoded example_request = Some 1"
    by (simp add: example_request_def)
  have gu: "getUser example_today example_today 1 example_users = (Some example_account, example_users)"
    by code_simp
  have oq: "\<not> over_quota (PLAN_LIMITS (plan example_account)) (searches_used example_account)
              (requested_limit example_request)"
    by code_simp
  have geo: "geocode example_provider (or_else (location_param example_request) [])
               = Resolved (Some (''48.85'', ''2.35''))"
    by code_simp
  have ts: "textsearch example_provider (or_else (type_param example_request) []) ''48.85'' ''2.35''
              = Resolved (Some example_places)"
    by (simp add: example_provider_def)
  have pl: "example_places = slice0 (or_nil (Some example_places)) (requested_limit example_request)"
    by code_simp
  have fl: "details_param example_request \<noteq> Some ''false''"
    by (simp add: example_request_def)
  have run: "?out = (fst ?out, fst (snd ?out), snd (snd ?out))"
    by simp
  have n: "length example_places = 3"
    by (simp add: example_places_def)
  have k: "length (filter (lookup_failed example_provider) (enumerate 0 example_places)) = 1"
    by code_simp
  have rej: "details example_provider 1 (place_id (example_places ! 1)) = Rejected ''socket hang up''"
    by code_simp
  have res: "details example_provider 0 (place_id (example_places ! 0)) = Resolved (Some example_detail)"
    by code_simp
  have ph: "truthy (Option.bind (Some example_detail) result_formatted_phone_number) = Some ''01 02 03''"
    by code_simp
  have pop: "\<forall>i < length example_places. \<forall>d.
      details example_provider i (place_id (example_places ! i)) = Resolved d \<longrightarrow>
      truthy (Option.bind d result_formatted_phone_number) \<noteq> None \<or>
      truthy (Option.bind d result_website) \<noteq> None"
    by (auto simp: example_provider_def example_detail_def split: if_splits)
  note facts = enrichment_degrades[OF dec gu oq geo ts pl fl run]
  note st = facts[THEN conjunct1]
  note len = facts[THEN conjunct2, THEN conjunct1]
  note pt = facts[THEN conjunct2, THEN conjunct2, THEN conjunct1]
  note ex = facts[THEN conjunct2, THEN conjunct2, THEN conjunct2, THEN conjunct2]
  have i0: "0 < length example_places" and i1: "1 < length example_places"
    using n by simp_all
  from ex pop have
    "length (filter bare (leads_of (snd (fst ?out)))) =
       length (filter (lookup_failed example_provider) (enumerate 0 example_places)) \<and>
     length (filter (\<lambda>l. \<not> bare l) (leads_of (snd (fst ?out)))) =
       length example_places -
       length (filter (lookup_failed example_provider) (enumerate 0 example_places))"
    by (rule mp)
  with n k have
    c1: "length (filter bare (leads_of (snd (fst ?out)))) = 1" and
    c2: "length (filter (\<lambda>l. \<not> bare l) (leads_of (snd (fst ?out)))) = 2"
    by simp_all
  from pt i1 rej have p1: "phone (leads_of (snd (fst ?out)) ! 1) = None"
    by blast
  from pt i0 res have
    "phone (leads_of (snd (fst ?out)) ! 0) =
       truthy (Option.bind (Some example_detail) result_formatted_phone_number)"
    by blast
  with ph have p0: "phone (leads_of (snd (fst ?out)) ! 0) = Some ''01 02 03''"
    by simp
  from k st len n c1 c2 p1 p0 show ?thesis
    by simp
qed

subsection \<open>C5: the quota test comes before every provider call\<close>

text \<open>
  C5. A request answered with the 403 of the quota test has issued no provider call; a
  request that fails the quota test is answered with that 403; and whenever a request
  has issued a provider call, its account had been loaded and had passed the quota test.
\<close>

theorem no_provider_call_on_rejection:
  assumes "search P now today req users = (resp, users', calls)"
  shows "(fst resp = 403 \<longrightarrow> calls = []) \<and>
         (\<forall>uid user users1. decoded req = Some uid \<longrightarrow>
            getUser now today uid users = (Some user, users1) \<longrightarrow>
            over_quota (PLAN_LIMITS (plan user)) (searches_used user) (requested_limit req) \<longrightarrow>
            fst resp = 403 \<and> calls = []) \<and>
         (calls \<noteq> [] \<longrightarrow>
            (\<exists>uid user users1. decoded req = Some uid \<and>
               getUser now today uid users = (Some user, users1) \<and>
               \<not> over_quota (PLAN_LIMITS (plan user)) (searches_used user) (requested_limit req)))"
  using assms
  by (auto simp: search_def Let_def
           split: reply.splits option.splits prod.splits if_splits)

text \<open>Eleven leads requested with ten left: 403 and no call.\<close>

theorem no_provider_call_on_rejection_witness:
  "fst (fst (search example_provider example_today example_today example_over_request example_users)) = 403 \<and>
   snd (snd (search example_provider example_today example_today example_over_request example_users)) = []"
proof -
  let ?out = "search example_provider example_today example_today example_over_request example_users"
  have run: "?out = (fst ?out, fst (snd ?out), snd (snd ?out))"
    by simp
  have rej: "fst (fst ?out) = 403"
    by code_simp
  from no_provider_call_on_rejection[OF run] rej show ?thesis
    by simp
qed

subsection \<open>C6: the monthly reset\<close>

text \<open>
  C6. The reset is said to happen exactly when the current (year, month) is greater than
  the stored one in lexicographic order. The test of the code is a disjunction of the two
  comparisons: it agrees with the lexicographic order whenever the stored year is not
  after the current year (\<open>month_advanced_agrees\<close>), and it fires as well when the stored
  year is after the current one and the stored month is smaller. On 31 December 2026 an
  account stamped 1 January 2027 is reset by \<open>getUser\<close> and by the login handler, although
  December 2026 is not after January 2027.
\<close>

theorem reset_when_year_behind:
  "\<not> spec_month_advanced example_new_year_eve (searches_reset_date example_ahead_account) \<and>
   getUser example_new_year_eve example_new_year 1 [example_ahead_account] =
     (Some (example_ahead_account\<lparr>searches_used := 0\<rparr>),
      [example_ahead_account\<lparr>searches_used := 0\<rparr>]) \<and>
   snd (login example_runtime example_new_year_eve example_new_year
          (Some ''ada@example.org'') (Some ''correct horse'') [example_ahead_account]) =
     [example_ahead_account\<lparr>searches_used := 0\<rparr>]"
  by code_simp

subsection \<open>C7: the remaining count of the 403\<close>

text \<open>
  C7, as stated, says that the remaining count of the 403 is never negative. With 1005
  searches used on the plan \<open>pro\<close> the response carries \<open>-5\<close>.
\<close>

theorem remaining_not_clamped:
  "fst (search example_provider example_today example_today example_request example_overdrawn_users) =
     (403, QuotaBody (SearchesLeft (Num (- 5))) 1005 (Num (- 5)) (Number (Num 1000)) ''pro'')"
  by code_simp

text \<open>
  C7, amended. The 403 of the quota test is given on the plans \<open>pro\<close> and \<open>agency\<close> only,
  and it carries the plan limit minus the usage read, as it is: in the message, as
  \<open>searches_remaining\<close>, next to the usage, the limit and the plan. That difference is not
  negative exactly when the usage is at most the limit.
\<close>

theorem rejection_reports_difference:
  assumes "search P now today req users = (resp, users', calls)" and "fst resp = 403"
  shows "\<exists>uid user users1 L.
           decoded req = Some uid \<and> getUser now today uid users = (Some user, users1) \<and>
           (plan user = ''pro'' \<or> plan user = ''agency'') \<and>
           PLAN_LIMITS (plan user) = Number (Num L) \<and>
           snd resp = QuotaBody (SearchesLeft (Num (L - searches_used user))) (searches_used user)
                        (Num (L - searches_used user)) (Number (Num L)) (plan user) \<and>
           (0 \<le> L - searches_used user \<longleftrightarrow> searches_used user \<le> L)"
proof -
  from search_403[OF assms] obtain uid user users1 where
    dec: "decoded req = Some uid" and
    gu: "getUser now today uid users = (Some user, users1)" and
    oq: "over_quota (PLAN_LIMITS (plan user)) (searches_used user) (requested_limit req)" and
    body: "snd resp = QuotaBody
                        (SearchesLeft (js_sub (to_number (PLAN_LIMITS (plan user))) (searches_used user)))
                        (searches_used user)
                        (js_sub (to_number (PLAN_LIMITS (plan user))) (searches_used user))
                        (PLAN_LIMITS (plan user)) (plan user)"
    by blast
  from over_quota_bounded[OF oq] obtain L where
    tier: "plan user = ''pro'' \<or> plan user = ''agency''" and
    L: "PLAN_LIMITS (plan user) = Number (Num L)"
    by blast
  from body L have
    "snd resp = QuotaBody (SearchesLeft (Num (L - searches_used user))) (searches_used user)
                        (Num (L - searches_used user)) (Number (Num L)) (plan user)"
    by simp
  moreover have "0 \<le> L - searches_used user \<longleftrightarrow> searches_used user \<le> L"
    by arith
  ultimately show ?thesis
    using dec gu tier L by blast
qed

text \<open>990 used, 11 requested: the 403 carries 10.\<close>

theorem rejection_reports_difference_witness:
  "fst (fst (search example_provider example_today example_today example_over_request example_users)) = 403 \<and>
   snd (fst (search example_provider example_today example_today example_over_request example_users)) =
     QuotaBody (SearchesLeft (Num 10)) 990 (Num 10) (Number (Num 1000)) ''pro''"
proof -
  let ?out = "search example_provider example_today example_today example_over_request example_users"
  have run: "?out = (fst ?out, fst (snd ?out), snd (snd ?out))"
    by simp
  have rej: "fst (fst ?out) = 403"
    by code_simp
  from rejection_reports_difference[OF run rej] obtain uid user users1 L where
    dec: "decoded example_over_request = Some uid" and
    gu: "getUser example_today example_today uid example_users = (Some user, users1)" and
    pl: "PLAN_LIMITS (plan user) = Number (Num L)" and
    body: "snd (fst ?out) = QuotaBody (SearchesLeft (Num (L - searches_used user))) (searches_used user)
                        (Num (L - searches_used user)) (Number (Num L)) (plan user)"
    by blast
  from dec have uid: "uid = 1"
    by (simp add: example_over_request_def example_request_def)
  have "getUser example_today example_today 1 example_users = (Some example_account, example_users)"
    by code_simp
  with gu uid have user: "user = example_account"
    by simp
  have "PLAN_LIMITS (plan example_account) = Number (Num 1000)"
    by code_simp
  with pl user have L: "L = 1000"
    by simp
  from rej body user L show ?thesis
    by (simp add: example_account_def)
qed

subsection \<open>C8: a token whose account is gone\<close>

text \<open>
  C8. The account of a valid token that no longer resolves is to give a 404. The search
  handler answers 401 with the message \<open>User not found\<close>; the handler of \<open>/auth/me\<close> answers
  404 with the same message in the same situation.
\<close>

theorem missing_account_is_401:
  "fst (search example_provider example_today example_today example_orphan_request example_users) =
     (401, ErrorBody (Plain ''User not found'')) \<and>
   fst (auth_me example_today example_today (decoded example_orphan_request) example_users) =
     (404, ErrorBody (Plain ''User not found''))"
  by code_simp

subsection \<open>C9: the body of a 500\<close>

text \<open>
  C9. The body of a 500 is to be a generic message. When the geocode call is rejected,
  the search handler answers with the message of the error itself.
\<close>

theorem internal_message_in_500:
  "fst (search example_down_provider example_today example_today example_request example_users) =
     (500, ErrorBody (Plain ''getaddrinfo ENOTFOUND maps.googleapis.com''))"
  by code_simp

subsection \<open>C10: a limit that is not a number\<close>

text \<open>
  C10, as stated, says that every authenticated request whose limit parses to \<open>NaN\<close> is
  answered with a 200 and no results. When the location is unknown the answer is a 404.
\<close>

theorem nan_limit_not_always_200:
  "parseInt ''abc'' = NaN \<and>
   fst (search example_provider example_today example_today example_nan_nowhere_request example_users) =
     (404, ErrorBody (Plain ''Location not found''))"
  by code_simp

text \<open>
  C10, amended. For a request with a valid token whose account is loaded and whose limit
  parameter is present, not empty and parsed to \<open>NaN\<close>: the quota test never rejects it,
  whatever the usage and the plan; nothing is debited, whatever the outcome; and when the
  geocode call gives a location and the text-search call returns, the response is a 200
  with no results and the usage unchanged.
\<close>

theorem nan_limit_debits_nothing:
  assumes "decoded req = Some uid"
      and "getUser now today uid users = (Some user, users1)"
      and "limit_param req = Some s" and "s \<noteq> []" and "parseInt s = NaN"
      and "search P now today req users = (resp, users', calls)"
  shows "fst resp \<noteq> 403 \<and> users' = users1 \<and>
         stored_used uid users' = Some (searches_used user) \<and>
         (\<forall>lat lng results.
            geocode P (or_else (location_param req) []) = Resolved (Some (lat, lng)) \<longrightarrow>
            textsearch P (or_else (type_param req) []) lat lng = Resolved results \<longrightarrow>
            resp = (200, ResultsBody [] (searches_used user)
                           (remaining_or_null (PLAN_LIMITS (plan user)) (searches_used user))
                           (limit_or_null (PLAN_LIMITS (plan user)))))"
proof -
  have lim: "requested_limit req = NaN"
    by (rule requested_limit_NaN[OF assms(3-5)])
  have a: "fst resp \<noteq> 403 \<and> users' = users1"
    using assms(1,2,6) lim
    by (auto simp: search_def Let_def not_over_quota_NaN add_usage_zero
             split: reply.splits option.splits prod.splits if_splits)
  have b: "stored_used uid users1 = Some (searches_used user)"
    by (rule getUser_Some(2)[OF assms(2)])
  have c: "resp = (200, ResultsBody [] (searches_used user)
                           (remaining_or_null (PLAN_LIMITS (plan user)) (searches_used user))
                           (limit_or_null (PLAN_LIMITS (plan user))))"
    if "geocode P (or_else (location_param req) []) = Resolved (Some (lat, lng))"
       "textsearch P (or_else (type_param req) []) lat lng = Resolved results" for lat lng results
    using assms(1,2,6) lim that
    by (auto simp: search_def Let_def not_over_quota_NaN enrich_Nil)
  from a b c show ?thesis by blast
qed

text \<open>The limit \<open>abc\<close> in Paris: 200, no results, 990 used as before.\<close>

theorem nan_limit_debits_nothing_witness:
  "parseInt ''abc'' = NaN \<and>
   fst (search example_provider example_today example_today example_nan_request example_users) =
     (200, ResultsBody [] 990 (Number (Num 10)) (Number (Num 1000))) \<and>
   fst (snd (search example_provider example_today example_today example_nan_request example_users)) =
     example_users"
proof -
  let ?out = "search example_provider example_today example_today example_nan_request example_users"
  have dec: "decoded example_nan_request = Some 1"
    by (simp add: example_nan_request_def example_request_def)
  have gu: "getUser example_today example_today 1 example_users = (Some example_account, example_users)"
    by code_simp
  have lp: "limit_param example_nan_request = Some ''abc''"
    by (simp add: example_nan_request_def)
  have ne: "''abc'' \<noteq> []"
    by simp
  have nan: "parseInt ''abc'' = NaN"
    by code_simp
  have run: "?out = (fst ?out, fst (snd ?out), snd (snd ?out))"
    by simp
  have geo: "geocode example_provider (or_else (location_param example_nan_request) [])
               = Resolved (Some (''48.85'', ''2.35''))"
    by code_simp
  have ts: "textsearch example_provider (or_else (type_param example_nan_request) []) ''48.85'' ''2.35''
              = Resolved (Some example_places)"
    by (simp add: example_provider_def)
  have vals: "searches_used example_account = 990"
     "remaining_or_null (PLAN_LIMITS (plan example_account)) 990 = Number (Num 10)"
     "limit_or_null (PLAN_LIMITS (plan example_account)) = Number (Num 1000)"
    by code_simp+
  from nan_limit_debits_nothing[OF dec gu lp ne nan run] geo ts nan vals show ?thesis
    by simp
qed

end
